theory Spec2Isabelle
  imports Main "HOL-Library.Word" "HOL-Library.Signed_Division"
begin

section \<open>Codeforces 4A, Watermelon: \<open>problems/4A_Watermelon/main.c\<close>\<close>

text \<open>
  The program, in full:
  \<^verbatim>\<open>
  bool can_divide(int w);

  int main(void)
  {
      int w;
      scanf("%d", &w);

      char* str_output;
      switch (can_divide(w))
      {
          case false:
              str_output = "NO";
              break;
          case true:
              str_output = "YES";
              break;
      }

      printf(str_output);
  }

  bool can_divide(int w)
  {
      return w > 2 && w % 2 == 0;
  }
  \<close>
  An \<open>int\<close> is a 32-bit two's complement word. An evaluation that the C standard leaves
  undefined is the value \<open>None\<close> (of an expression) or \<open>Undefined\<close> (of the program), so
  that every such point of the source is a branch of the model. A local variable that
  has been declared but not yet assigned holds \<open>None\<close>.
\<close>

subsection \<open>C integers\<close>

type_synonym c_int = "32 word"

definition INT_MIN :: c_int where
  "INT_MIN = - (2 ^ 31)"

definition INT_MAX :: c_int where
  "INT_MAX = 2 ^ 31 - 1"

text \<open>
  The operator \<open>%\<close> on \<open>int\<close>: the remainder of the division that truncates towards
  zero (it has the sign of the dividend). It is undefined for a zero divisor and
  where the quotient is not representable (\<open>INT_MIN % -1\<close>).
\<close>

definition c_rem :: "c_int \<Rightarrow> c_int \<Rightarrow> c_int option" where
  "c_rem a b =
     (if b = 0 \<or> (a = INT_MIN \<and> b = - 1) then None
      else Some (word_of_int (sint a smod sint b)))"

subsection \<open>\<open>can_divide\<close>\<close>

text \<open>
  \<open>return w > 2 && w % 2 == 0;\<close> The operator \<open>&&\<close> evaluates its right operand only
  when the left one is true.
\<close>

definition can_divide :: "c_int \<Rightarrow> bool option" where
  "can_divide w =
     (if 2 <s w
      then (case c_rem w 2 of None \<Rightarrow> None | Some r \<Rightarrow> Some (r = 0))
      else Some False)"

subsection \<open>The library calls of \<open>main\<close>\<close>

text \<open>
  What \<open>scanf("%d", &w)\<close> found on standard input: an integer that it converted, text
  that is not an integer (a matching failure), or the end of the input before any
  conversion (an input failure).
\<close>

datatype conversion = Converted c_int | MatchingFailure | InputFailure

text \<open>
  \<open>scanf_d conv w\<close> is the call \<open>scanf("%d", &w)\<close>: its return value (the number of
  items assigned, or \<open>EOF\<close>) and the new content of the variable. The variable is
  written only when the conversion succeeds.
\<close>

definition EOF :: int where
  "EOF = - 1"

definition scanf_d :: "conversion \<Rightarrow> c_int option \<Rightarrow> int \<times> c_int option" where
  "scanf_d conv w =
     (case conv of
        Converted v \<Rightarrow> (1, Some v)
      | MatchingFailure \<Rightarrow> (0, w)
      | InputFailure \<Rightarrow> (EOF, w))"

text \<open>
  \<open>printf fmt\<close> is the call \<open>printf(fmt)\<close> with a format and no further argument: the
  text written to standard output. An ordinary character is copied, \<open>%%\<close> writes one
  \<open>%\<close>, and any other conversion specification asks for an argument that was not
  passed, which is undefined.
\<close>

fun printf :: "string \<Rightarrow> string option" where
  "printf [] = Some []"
| "printf [c] = (if c = CHR ''%'' then None else Some [c])"
| "printf (c # d # cs) =
     (if c = CHR ''%''
      then (if d = CHR ''%'' then map_option ((#) CHR ''%'') (printf cs) else None)
      else map_option ((#) c) (printf (d # cs)))"

subsection \<open>\<open>main\<close>\<close>

text \<open>
  The \<open>switch\<close> statement of \<open>main\<close>. Its controlling expression is the \<open>bool\<close> returned
  by \<open>can_divide\<close>, promoted to \<open>int\<close>; the labels \<open>false\<close> and \<open>true\<close> are the constants
  0 and 1. There is no \<open>default\<close> label: with any other value no statement of the body
  runs and \<open>str_output\<close> keeps its content.
\<close>

definition bool_to_int :: "bool \<Rightarrow> int" where
  "bool_to_int b = (if b then 1 else 0)"

definition main_switch :: "int \<Rightarrow> string option \<Rightarrow> string option" where
  "main_switch v str_output =
     (if v = 0 then Some ''NO''
      else if v = 1 then Some ''YES''
      else str_output)"

text \<open>
  How a run ends: with undefined behaviour, or by returning from \<open>main\<close> with the text
  written to standard output and the exit status.
\<close>

datatype outcome = Undefined | Exit string int

text \<open>
  \<open>main\<close>, statement by statement. The value returned by \<open>scanf\<close> is discarded. Reading
  \<open>w\<close> or \<open>str_output\<close> while it is unassigned is undefined. Control reaches the closing
  brace of \<open>main\<close> without a \<open>return\<close>, which returns 0 (C99 5.1.2.2.3; the program
  includes \<open>stdbool.h\<close>).
\<close>

definition main :: "conversion \<Rightarrow> outcome" where
  "main stdin =
     (let w = None;
          w = snd (scanf_d stdin w);
          str_output = None
      in case w of
           None \<Rightarrow> Undefined
         | Some w' \<Rightarrow>
             (case can_divide w' of
                None \<Rightarrow> Undefined
              | Some b \<Rightarrow>
                  (case main_switch (bool_to_int b) str_output of
                     None \<Rightarrow> Undefined
                   | Some fmt \<Rightarrow>
                       (case printf fmt of
                          None \<Rightarrow> Undefined
                        | Some out \<Rightarrow> Exit out 0))))"

text \<open>
  What a run can be seen to do. Undefined behaviour puts no constraint on the
  execution, so an evaluation with the value \<open>None\<close> may be seen to return anything, and
  a program whose outcome is \<open>Undefined\<close> may be seen to write any text and exit with
  any status; a defined evaluation is seen to do just what it does.
\<close>

definition may_return :: "'a option \<Rightarrow> 'a \<Rightarrow> bool" where
  "may_return r v = (case r of None \<Rightarrow> True | Some v' \<Rightarrow> v' = v)"

definition run :: "conversion \<Rightarrow> string \<Rightarrow> int \<Rightarrow> bool" where
  "run stdin out code =
     (case main stdin of
        Undefined \<Rightarrow> True
      | Exit out' code' \<Rightarrow> out' = out \<and> code' = code)"

section \<open>Properties\<close>

subsection \<open>Evaluating the parts\<close>

lemma sless_2_iff: "(2 <s (w :: c_int)) = (2 < sint w)"
  by (simp add: word_sless_alt)

lemma c_rem_2: "c_rem w 2 = Some (word_of_int (sint w smod 2))"
  by (simp add: c_rem_def)

lemma smod_2_eq: "(k :: int) smod 2 = (if even k then 0 else sgn k)"
  by (simp add: signed_modulo_int_def) presburger

lemma word_of_sgn_eq_0_iff: "((word_of_int (sgn k) :: c_int) = 0) = (k = 0)"
  by (cases "k = 0"; cases "k < 0") (simp_all add: sgn_if)

lemma can_divide_eq: "can_divide w = Some (2 < sint w \<and> even (sint w))"
  by (simp add: can_divide_def sless_2_iff c_rem_2 smod_2_eq word_of_sgn_eq_0_iff)

lemma main_switch_bool:
  "main_switch (bool_to_int b) s = Some (if b then ''YES'' else ''NO'')"
  by (simp add: main_switch_def bool_to_int_def)

lemma main_switch_other: "main_switch 2 None = None"
  by (simp add: main_switch_def)

lemma printf_YES: "printf ''YES'' = Some ''YES''"
  by simp

lemma printf_NO: "printf ''NO'' = Some ''NO''"
  by simp

lemma main_Converted:
  "main (Converted w) = Exit (if 2 < sint w \<and> even (sint w) then ''YES'' else ''NO'') 0"
  by (simp add: main_def scanf_d_def can_divide_eq main_switch_bool printf_YES printf_NO
      del: printf.simps)

lemma main_MatchingFailure: "main MatchingFailure = Undefined"
  by (simp add: main_def scanf_d_def)

lemma main_InputFailure: "main InputFailure = Undefined"
  by (simp add: main_def scanf_d_def)

subsection \<open>The claims\<close>

text \<open>
  C1. For every integer \<open>w\<close> that \<open>scanf\<close> converted, \<open>can_divide\<close> returns true if and only
  if \<open>w > 2\<close> and \<open>w mod 2 = 0\<close>, the program prints \<open>YES\<close> if and only if \<open>w > 2\<close> and
  \<open>w mod 2 = 0\<close>, and it prints \<open>NO\<close> otherwise.
\<close>

theorem yes_iff_gt_2_and_even:
  "can_divide w = Some (2 < sint w \<and> sint w mod 2 = 0) \<and>
   (main (Converted w) = Exit ''YES'' 0 \<longleftrightarrow> 2 < sint w \<and> sint w mod 2 = 0) \<and>
   (main (Converted w) = Exit ''NO'' 0 \<longleftrightarrow> \<not> (2 < sint w \<and> sint w mod 2 = 0))"
  by (simp add: can_divide_eq main_Converted even_iff_mod_2_eq_zero)

text \<open>
  C2. For every integer \<open>w\<close>, the program prints \<open>YES\<close> if and only if there are two
  positive even integers \<open>a\<close> and \<open>b\<close> with \<open>a + b = w\<close>.
\<close>

theorem yes_iff_two_even_parts:
  "main (Converted w) = Exit ''YES'' 0 \<longleftrightarrow>
   (\<exists>a b :: int. 0 < a \<and> 0 < b \<and> even a \<and> even b \<and> a + b = sint w)"
proof
  assume "main (Converted w) = Exit ''YES'' 0"
  then have "2 < sint w" and "even (sint w)"
    by (simp_all add: main_Converted split: if_splits)
  then have "0 < (2 :: int) \<and> 0 < sint w - 2 \<and> even (2 :: int) \<and> even (sint w - 2)
      \<and> 2 + (sint w - 2) = sint w"
    by simp
  then show "\<exists>a b :: int. 0 < a \<and> 0 < b \<and> even a \<and> even b \<and> a + b = sint w"
    by blast
next
  assume "\<exists>a b :: int. 0 < a \<and> 0 < b \<and> even a \<and> even b \<and> a + b = sint w"
  then obtain a b :: int
    where ab: "0 < a" "0 < b" "even a" "even b" "a + b = sint w"
    by blast
  from ab(1,3) have "2 \<le> a" by presburger
  moreover from ab(2,4) have "2 \<le> b" by presburger
  ultimately have "2 < sint w" using ab(5) by linarith
  moreover have "even (sint w)" using ab(3,4,5) by (metis even_add)
  ultimately show "main (Converted w) = Exit ''YES'' 0"
    by (simp add: main_Converted)
qed

text \<open>
  C3. For every \<open>w \<le> 2\<close>, whatever its parity, for every negative \<open>w\<close> and for every odd
  \<open>w\<close>, \<open>can_divide w\<close> returns false and the program prints \<open>NO\<close>.
\<close>

theorem no_when_small_negative_or_odd:
  assumes "sint w \<le> 2 \<or> sint w < 0 \<or> odd (sint w)"
  shows "can_divide w = Some False \<and> main (Converted w) = Exit ''NO'' 0"
  using assms by (auto simp add: can_divide_eq main_Converted)

theorem no_when_small_negative_or_odd_witness:
  "(sint (2 :: c_int) \<le> 2 \<or> sint (2 :: c_int) < 0 \<or> odd (sint (2 :: c_int))) \<and>
   can_divide 2 = Some False \<and> main (Converted 2) = Exit ''NO'' 0 \<and>
   (sint (- 4 :: c_int) \<le> 2 \<or> sint (- 4 :: c_int) < 0 \<or> odd (sint (- 4 :: c_int))) \<and>
   can_divide (- 4) = Some False \<and> main (Converted (- 4)) = Exit ''NO'' 0 \<and>
   (sint (7 :: c_int) \<le> 2 \<or> sint (7 :: c_int) < 0 \<or> odd (sint (7 :: c_int))) \<and>
   can_divide 7 = Some False \<and> main (Converted 7) = Exit ''NO'' 0"
  using no_when_small_negative_or_odd [of 2] no_when_small_negative_or_odd [of "- 4"]
    no_when_small_negative_or_odd [of 7]
  by simp

text \<open>
  C4. On the inputs that the specification lists: 1, 2 and 3 print \<open>NO\<close>, 4 and 100
  print \<open>YES\<close>, and -4 prints \<open>NO\<close>.
\<close>

theorem listed_inputs:
  "main (Converted 1) = Exit ''NO'' 0 \<and>
   main (Converted 2) = Exit ''NO'' 0 \<and>
   main (Converted 3) = Exit ''NO'' 0 \<and>
   main (Converted 4) = Exit ''YES'' 0 \<and>
   main (Converted 100) = Exit ''YES'' 0 \<and>
   main (Converted (- 4)) = Exit ''NO'' 0"
  by (simp add: main_Converted)

text \<open>
  C5. For every converted integer, the whole text written to standard output is
  exactly \<open>YES\<close> or exactly \<open>NO\<close>; it holds no newline.
\<close>

theorem stdout_is_YES_or_NO:
  "\<exists>out code. main (Converted w) = Exit out code \<and> (out = ''YES'' \<or> out = ''NO'') \<and>
     CHR 0x0A \<notin> set out"
  by (simp add: main_Converted)

text \<open>
  C6. The program is deterministic on an integer input: any two runs with the same
  converted integer compute the same boolean, print the same text and exit with the
  same status.
\<close>

theorem runs_agree:
  assumes "may_return (can_divide w) b1" and "may_return (can_divide w) b2"
    and "run (Converted w) out1 code1" and "run (Converted w) out2 code2"
  shows "b1 = b2 \<and> out1 = out2 \<and> code1 = code2"
  using assms by (simp add: may_return_def run_def can_divide_eq main_Converted)

theorem runs_agree_witness:
  "may_return (can_divide 4) True \<and> run (Converted 4) ''YES'' 0 \<and>
   (True = True \<and> ''YES'' = ''YES'' \<and> (0 :: int) = 0)"
proof -
  have b: "may_return (can_divide 4) True"
    by (simp add: may_return_def can_divide_eq)
  have r: "run (Converted 4) ''YES'' 0"
    by (simp add: run_def main_Converted)
  show ?thesis using b r runs_agree [OF b b r r] by simp
qed

text \<open>
  C7. For every converted integer the program returns from \<open>main\<close> with exit status 0,
  and no input makes it return with another status.
\<close>

theorem exit_status_0:
  "(\<exists>out. main (Converted w) = Exit out 0) \<and>
   (main stdin = Exit out' code \<longrightarrow> code = 0)"
  by (cases stdin) (simp_all add: main_Converted main_MatchingFailure main_InputFailure)

theorem exit_status_0_witness:
  "main (Converted 100) = Exit ''YES'' 0 \<and> (\<exists>out. main (Converted 100) = Exit out 0)"
  using exit_status_0 [of 100 "Converted 100" "''YES''" 0] by (simp add: main_Converted)

text \<open>
  C8. When the input is not an integer, \<open>scanf\<close> leaves \<open>w\<close> unassigned, \<open>main\<close> goes on
  without looking at the value \<open>scanf\<close> returned and reads \<open>w\<close> for \<open>can_divide\<close>: the
  behaviour is undefined, and every output and exit status is a possible run.
\<close>

theorem parse_failure_undefined:
  "snd (scanf_d MatchingFailure None) = None \<and> main MatchingFailure = Undefined \<and>
   run MatchingFailure out code \<and>
   snd (scanf_d InputFailure None) = None \<and> main InputFailure = Undefined \<and>
   run InputFailure out code"
  by (simp add: scanf_d_def main_MatchingFailure main_InputFailure run_def)

text \<open>
  C9. The \<open>switch\<close> has a label for each of the two values of the \<open>bool\<close> that
  \<open>can_divide\<close> returns, so it assigns one of the two string constants to \<open>str_output\<close>,
  which was unassigned before; with a converted integer the program never reads an
  unassigned variable.
\<close>

theorem switch_assigns_str_output:
  "(\<exists>s. main_switch (bool_to_int b) None = Some s \<and> (s = ''NO'' \<or> s = ''YES'')) \<and>
   main (Converted w) \<noteq> Undefined"
  by (simp add: main_switch_bool main_Converted)

text \<open>
  C10. For every 32-bit \<open>w\<close>, \<open>INT_MIN\<close> and \<open>INT_MAX\<close> included, the evaluation of
  \<open>can_divide w\<close> is defined: \<open>w % 2\<close> is never one of the undefined remainders, and
  the call returns a boolean.
\<close>

theorem can_divide_defined:
  "c_rem w 2 \<noteq> None \<and>
   (\<exists>b. can_divide w = Some b) \<and>
   can_divide INT_MIN = Some False \<and>
   can_divide INT_MAX = Some False"
  by (simp add: c_rem_2 can_divide_eq INT_MIN_def INT_MAX_def)

end
